theory Spec2Isabelle
  imports Complex_Main "HOL-Library.Multiset" "HOL-Library.List_Lexorder" "HOL-Library.Char_ord"
begin

section \<open>Campaign performance analysis engine\<close>

text \<open>
  A shallow embedding of \<^verbatim>\<open>src/core/analyzer.py\<close> and of the four metric helpers of
  \<^verbatim>\<open>src/tools/insights.py\<close>. Python floats are modelled as \<^typ>\<open>real\<close> (no rounding,
  no NaN, no infinities), Python ints as \<^typ>\<open>int\<close>, strings as \<^typ>\<open>string\<close>,
  a raised exception as the left summand of \<open>py_error + 'a\<close>. Ints are unbounded and
  floats are not, so an int that meets a float, and the quotient of two ints, can be
  beyond the float range: that \<^verbatim>\<open>OverflowError\<close> is part of the model.
\<close>

subsection \<open>Exceptions and Python values\<close>

datatype py_error =
  ZeroDivisionError | OverflowError | TypeError | ValueError | AttributeError

text \<open>
  The largest double is \<open>2 ^ 1024 - 2 ^ 971\<close>; a number of magnitude at least
  \<open>2 ^ 1024 - 2 ^ 970\<close> rounds beyond it. Converting such an int to a float raises
  \<^verbatim>\<open>OverflowError\<close>.
\<close>

definition float_overflow_bound :: real where
  "float_overflow_bound = 2 ^ 1024 - 2 ^ 970"

definition int_to_float :: "int \<Rightarrow> py_error + real" where
  "int_to_float n =
     (if \<bar>of_int n\<bar> \<ge> float_overflow_bound then Inl OverflowError else Inr (of_int n))"

text \<open>
  Python's \<^verbatim>\<open>a / b\<close>, by the types of its operands. On two floats only a zero divisor
  raises. On two ints a zero divisor raises, and so does a quotient beyond the float
  range. On a float and an int the int is converted first, which may raise, then the
  divisor is tested.
\<close>

definition truediv :: "real \<Rightarrow> real \<Rightarrow> py_error + real" where
  "truediv a b = (if b = 0 then Inl ZeroDivisionError else Inr (a / b))"

definition truediv_int_int :: "int \<Rightarrow> int \<Rightarrow> py_error + real" where
  "truediv_int_int a b =
     (if b = 0 then Inl ZeroDivisionError
      else if \<bar>of_int a / of_int b\<bar> \<ge> float_overflow_bound then Inl OverflowError
      else Inr (of_int a / of_int b))"

definition truediv_float_int :: "real \<Rightarrow> int \<Rightarrow> py_error + real" where
  "truediv_float_int a b =
     (case int_to_float b of
        Inl e \<Rightarrow> Inl e
      | Inr d \<Rightarrow> if d = 0 then Inl ZeroDivisionError else Inr (a / d))"

text \<open>
  The handler \<^verbatim>\<open>except (TypeError, ZeroDivisionError): return 0.0\<close> shared by the four
  metric helpers: the two listed exceptions become \<open>0.0\<close>, any other one propagates.
  The annotated argument types are taken as given: spend and conversion value are
  floats, clicks and impressions ints.
\<close>

fun except_type_zero_division :: "py_error + real \<Rightarrow> py_error + real" where
  "except_type_zero_division (Inr v) = Inr v"
| "except_type_zero_division (Inl TypeError) = Inr 0"
| "except_type_zero_division (Inl ZeroDivisionError) = Inr 0"
| "except_type_zero_division (Inl e) = Inl e"

subsection \<open>Derived metrics (\<^verbatim>\<open>src/tools/insights.py\<close>)\<close>

definition calculate_roas :: "real \<Rightarrow> real \<Rightarrow> py_error + real" where
  "calculate_roas spend conversion_value =
     except_type_zero_division
       (if spend = 0 then Inr 0 else truediv conversion_value spend)"

definition calculate_ctr :: "int \<Rightarrow> int \<Rightarrow> py_error + real" where
  "calculate_ctr clicks impressions =
     except_type_zero_division
       (if impressions = 0 then Inr 0 else truediv_int_int clicks impressions)"

definition calculate_cpc :: "real \<Rightarrow> int \<Rightarrow> py_error + real" where
  "calculate_cpc spend clicks =
     except_type_zero_division
       (if clicks = 0 then Inr 0 else truediv_float_int spend clicks)"

definition calculate_cpm :: "real \<Rightarrow> int \<Rightarrow> py_error + real" where
  "calculate_cpm spend impressions =
     except_type_zero_division
       (if impressions = 0 then Inr 0
        else (case truediv_float_int spend impressions of
                Inl e \<Rightarrow> Inl e
              | Inr q \<Rightarrow> Inr (q * 1000)))"

subsection \<open>Thresholds (\<^verbatim>\<open>src/config/constants.py\<close>)\<close>

record thresholds =
  good_roas :: real
  good_ctr :: real
  high_cpc :: real
  low_conversions :: int
  high_frequency :: real

definition ANALYSIS_THRESHOLDS :: thresholds where
  "ANALYSIS_THRESHOLDS =
     \<lparr> good_roas = 3.0, good_ctr = 2.0, high_cpc = 2.00,
       low_conversions = 5, high_frequency = 5.0 \<rparr>"

subsection \<open>Per-campaign scoring, issues and recommendations\<close>

text \<open>
  The methods of \<^verbatim>\<open>CampaignAnalyzer\<close> take \<^verbatim>\<open>self.thresholds\<close> as their first
  argument here. Each reassignment of the local \<^verbatim>\<open>score\<close> is one step of the \<open>let\<close>
  chain. The division \<^verbatim>\<open>spend / conversions\<close> is only reached with
  \<^verbatim>\<open>conversions > 0\<close>, so its divisor is never zero. It raises when the conversion
  count is beyond the float range; \<open>calculate_performance_score\<close> is the value returned
  when it does not, and \<open>performance_score_call\<close> is the call with that exception.
\<close>

definition calculate_performance_score :: "thresholds \<Rightarrow> real \<Rightarrow> real \<Rightarrow> real \<Rightarrow> int \<Rightarrow> real" where
  "calculate_performance_score th spend roas ctr conversions =
     (let score = 50;
          score = (if roas \<ge> good_roas th then score + 40
                   else if roas \<ge> 2.0 then score + 25
                   else if roas \<ge> 1.0 then score + 10
                   else if roas > 0 then score + 5
                   else score);
          score = (if ctr \<ge> good_ctr th / 100 then score + 30
                   else if ctr \<ge> 1.0 / 100 then score + 20
                   else if ctr \<ge> 0.5 / 100 then score + 10
                   else score);
          score = (if conversions \<ge> 50 then score + 20
                   else if conversions \<ge> 20 then score + 15
                   else if conversions \<ge> 10 then score + 10
                   else if conversions \<ge> 5 then score + 5
                   else score);
          score = (if spend > 0 \<and> conversions > 0 then
                     (let cost_per_conversion = spend / of_int conversions in
                        if cost_per_conversion \<le> 20 then score + 10
                        else if cost_per_conversion \<le> 50 then score + 5
                        else score)
                   else score)
      in min score 100)"

definition performance_score_call ::
  "thresholds \<Rightarrow> real \<Rightarrow> real \<Rightarrow> real \<Rightarrow> int \<Rightarrow> py_error + real" where
  "performance_score_call th spend roas ctr conversions =
     (if spend > 0 \<and> conversions > 0 then
        (case int_to_float conversions of
           Inl e \<Rightarrow> Inl e
         | Inr d \<Rightarrow> Inr (calculate_performance_score th spend roas ctr conversions))
      else Inr (calculate_performance_score th spend roas ctr conversions))"

definition identify_campaign_issues ::
  "thresholds \<Rightarrow> real \<Rightarrow> real \<Rightarrow> real \<Rightarrow> real \<Rightarrow> int \<Rightarrow> int \<Rightarrow> string list" where
  "identify_campaign_issues th spend roas ctr cpc conversions days_running =
     (let issues = [];
          issues = (if roas < 1.0 \<and> spend > 50
                    then issues @ [''Negative ROI - spending more than earning'']
                    else issues);
          issues = (if ctr < 0.5 / 100 \<and> spend > 25
                    then issues @ [''Very low click-through rate'']
                    else issues);
          issues = (if cpc > high_cpc th \<and> spend > 100
                    then issues @ [''High cost per click'']
                    else issues);
          issues = (if conversions < low_conversions th \<and> days_running > 7
                    then issues @ [''Low conversion volume'']
                    else issues);
          issues = (if spend = 0
                    then issues @ [''No spend detected - campaign may not be delivering'']
                    else issues)
      in issues)"

text \<open>
  \<^verbatim>\<open>"..." in issues\<close> on a list of strings is element equality, hence membership in
  \<^term>\<open>set issues\<close>; \<^verbatim>\<open>not recommendations\<close> is emptiness.
\<close>

definition generate_campaign_recommendations ::
  "thresholds \<Rightarrow> real \<Rightarrow> real \<Rightarrow> real \<Rightarrow> real \<Rightarrow> int \<Rightarrow> string list \<Rightarrow> string list" where
  "generate_campaign_recommendations th spend roas ctr cpc conversions issues =
     (let recommendations = [];
          recommendations = (if ''Negative ROI'' \<in> set issues
             then recommendations @
                    [''Consider pausing campaign - negative return on investment'',
                     ''Review targeting and creative to improve performance'']
             else recommendations);
          recommendations = (if ''Very low click-through rate'' \<in> set issues
             then recommendations @
                    [''Test different ad creative or copy'',
                     ''Review audience targeting for relevance'']
             else recommendations);
          recommendations = (if ''High cost per click'' \<in> set issues
             then recommendations @
                    [''Consider bid strategy adjustments'',
                     ''Review audience size and competition'']
             else recommendations);
          recommendations = (if ''Low conversion volume'' \<in> set issues
             then recommendations @
                    [''Review landing page experience'',
                     ''Test different call-to-action buttons'']
             else recommendations);
          recommendations = (if recommendations = [] \<and> roas > good_roas th
             then recommendations @ [''Campaign performing well - consider increasing budget'']
             else recommendations);
          recommendations = (if recommendations = [] \<and> ctr > good_ctr th / 100
             then recommendations @ [''Good engagement - test audience expansion'']
             else recommendations)
      in recommendations)"

subsection \<open>The scoring rule as the specification words it\<close>





subsection \<open>Analysis records\<close>

text \<open>
  The two dataclasses, and the dictionary literal of an action item (always built with
  the same five keys). Fields that occur in two records are written qualified.
\<close>

record CampaignAnalysis =
  campaign_id :: string
  campaign_name :: string
  spend :: real
  impressions :: int
  clicks :: int
  conversions :: int
  conversion_value :: real
  ctr :: real
  cpc :: real
  cpm :: real
  roas :: real
  status :: string
  days_running :: int
  performance_score :: real
  issues :: "string list"
  recommendations :: "string list"

record ActionItem =
  priority :: string
  action :: string
  campaign_id :: string
  campaign_name :: string
  reason :: string

record AccountAnalysis =
  total_spend :: real
  total_conversions :: int
  average_roas :: real
  account_health :: string
  top_performers :: "CampaignAnalysis list"
  underperformers :: "CampaignAnalysis list"
  recommendations :: "string list"
  action_items :: "ActionItem list"

subsection \<open>Python built-ins and external collaborators\<close>

text \<open>
  \<^verbatim>\<open>sorted\<close> and \<^verbatim>\<open>list.sort\<close> are guaranteed stable, and a stable sort has exactly
  one result, so insertion sort stands for them. With \<^verbatim>\<open>reverse=True\<close> the list is
  reversed, sorted and reversed again, which keeps equal keys in their original order.
\<close>

definition py_sorted :: "('a \<Rightarrow> 'k::linorder) \<Rightarrow> bool \<Rightarrow> 'a list \<Rightarrow> 'a list" where
  "py_sorted key reverse xs =
     (if reverse then rev (sort_key key (rev xs)) else sort_key key xs)"

text \<open>\<^verbatim>\<open>str(n)\<close> for a length.\<close>

fun py_str_nat :: "nat \<Rightarrow> string" where
  "py_str_nat n =
     (if n < 10 then [char_of (48 + n)]
      else py_str_nat (n div 10) @ [char_of (48 + n mod 10)])"

text \<open>
  Values found in an insight row. Parsing of strings, date arithmetic and float
  formatting belong to the Python runtime; they are parameters of the model:
  \<open>float_of_str\<close> and \<open>int_of_str\<close> are \<^verbatim>\<open>float(s)\<close> and \<^verbatim>\<open>int(s)\<close> on a string
  (\<open>None\<close> when they raise \<^verbatim>\<open>ValueError\<close>), \<open>days_since s\<close> is
  \<^verbatim>\<open>(datetime.now() - datetime.fromisoformat(s.replace('Z', '+00:00')).replace(tzinfo=None)).days\<close>
  (\<open>None\<close> when it raises), and \<open>format_fixed d x\<close> is \<^verbatim>\<open>f"{x:.df}"\<close>.
\<close>

datatype pyval = PNone | PBool bool | PInt int | PFloat real | PStr string

record pylib =
  float_of_str :: "string \<Rightarrow> real option"
  int_of_str :: "string \<Rightarrow> int option"
  days_since :: "string \<Rightarrow> int option"
  format_fixed :: "nat \<Rightarrow> real \<Rightarrow> string"

fun truthy :: "pyval \<Rightarrow> bool" where
  "truthy PNone = False"
| "truthy (PBool b) = b"
| "truthy (PInt i) = (i \<noteq> 0)"
| "truthy (PFloat r) = (r \<noteq> 0)"
| "truthy (PStr s) = (s \<noteq> [])"

fun py_float :: "pylib \<Rightarrow> pyval \<Rightarrow> py_error + real" where
  "py_float lib PNone = Inl TypeError"
| "py_float lib (PBool b) = Inr (if b then 1 else 0)"
| "py_float lib (PInt i) = int_to_float i"
| "py_float lib (PFloat r) = Inr r"
| "py_float lib (PStr s) =
     (case float_of_str lib s of None \<Rightarrow> Inl ValueError | Some r \<Rightarrow> Inr r)"

fun py_int :: "pylib \<Rightarrow> pyval \<Rightarrow> py_error + int" where
  "py_int lib PNone = Inl TypeError"
| "py_int lib (PBool b) = Inr (if b then 1 else 0)"
| "py_int lib (PInt i) = Inr i"
| "py_int lib (PFloat r) = Inr (if r \<ge> 0 then \<lfloor>r\<rfloor> else \<lceil>r\<rceil>)"
| "py_int lib (PStr s) =
     (case int_of_str lib s of None \<Rightarrow> Inl ValueError | Some i \<Rightarrow> Inr i)"

text \<open>\<^verbatim>\<open>data.get(key, 0) or 0\<close>.\<close>

definition get_or_0 :: "(string \<rightharpoonup> pyval) \<Rightarrow> string \<Rightarrow> pyval" where
  "get_or_0 data key =
     (case data key of
        None \<Rightarrow> PInt 0
      | Some v \<Rightarrow> if truthy v then v else PInt 0)"

text \<open>Sequencing of statements that may raise: the first exception ends the block.\<close>

definition py_bind :: "py_error + 'a \<Rightarrow> ('a \<Rightarrow> py_error + 'b) \<Rightarrow> py_error + 'b" where
  "py_bind m f = (case m of Inl e \<Rightarrow> Inl e | Inr v \<Rightarrow> f v)"

text \<open>
  The answers of \<^verbatim>\<open>get_campaigns\<close> and \<^verbatim>\<open>get_insights\<close>. A campaign is a dictionary of
  strings. The analyzer reads \<^verbatim>\<open>insights\<close> as a date-keyed dictionary of rows;
  \<^verbatim>\<open>get_insights\<close> of \<^verbatim>\<open>src/tools/insights.py\<close> hands over a list of rows, so the
  payload has both shapes. An absent \<^verbatim>\<open>insights\<close> key is \<open>None\<close>.
\<close>

datatype insights_payload =
    InsightsDict "(string \<times> (string \<rightharpoonup> pyval)) list"
  | InsightsList "(string \<rightharpoonup> pyval) list"

record InsightsResponse =
  success :: bool
  insights :: "insights_payload option"

record CampaignsResponse =
  success :: bool
  error :: "string option"
  campaigns :: "(string \<rightharpoonup> string) list"

subsection \<open>Analysis of one campaign\<close>

text \<open>
  The block computing \<^verbatim>\<open>days_running\<close>; the bare \<^verbatim>\<open>except: pass\<close> keeps the default.
\<close>

definition estimate_days_running :: "pylib \<Rightarrow> string \<Rightarrow> int" where
  "estimate_days_running lib created_date =
     (let days_running = 30 in
      if created_date \<noteq> [] then
        (case days_since lib created_date of
           None \<Rightarrow> days_running
         | Some elapsed \<Rightarrow> min elapsed 30)
      else days_running)"

text \<open>
  The body of the \<^verbatim>\<open>try\<close> of \<^verbatim>\<open>_analyze_single_campaign\<close>: \<open>Inl\<close> is an exception
  raised inside it, \<open>Inr None\<close> an early \<^verbatim>\<open>return None\<close>.
\<close>

definition analyze_single_campaign_try ::
  "thresholds \<Rightarrow> pylib \<Rightarrow> (string \<Rightarrow> string \<Rightarrow> InsightsResponse) \<Rightarrow>
   (string \<rightharpoonup> string) \<Rightarrow> string \<Rightarrow> py_error + CampaignAnalysis option" where
  "analyze_single_campaign_try th lib get_insights campaign time_range =
     (case campaign ''id'' of
        None \<Rightarrow> Inr None
      | Some v \<Rightarrow>
          let campaign_id = v in
          if campaign_id = [] then Inr None
          else
            let insights_response = get_insights campaign_id time_range in
            if \<not> InsightsResponse.success insights_response then Inr None
            else
              (case (case InsightsResponse.insights insights_response of
                       None \<Rightarrow> InsightsDict [] | Some payload \<Rightarrow> payload) of
                 InsightsList rows \<Rightarrow>
                   if rows = [] then Inr None else Inl AttributeError
               | InsightsDict entries \<Rightarrow>
                   let insights = entries in
                   if insights = [] then Inr None
                   else
                     let latest_date = Max (set (map fst insights)) in
                     if latest_date = [] then Inr None
                     else
                       (case map_of insights latest_date of
                          None \<Rightarrow> Inr None
                        | Some data \<Rightarrow>
       py_bind (py_float lib (get_or_0 data ''spend'')) (\<lambda>spend.
       py_bind (py_int lib (get_or_0 data ''impressions'')) (\<lambda>impressions.
       py_bind (py_int lib (get_or_0 data ''clicks'')) (\<lambda>clicks.
       py_bind (py_int lib (get_or_0 data ''conversions'')) (\<lambda>conversions.
       py_bind (py_float lib (get_or_0 data ''conversion_value'')) (\<lambda>conversion_value.
       py_bind (calculate_ctr clicks impressions) (\<lambda>ctr.
       py_bind (calculate_cpc spend clicks) (\<lambda>cpc.
       py_bind (calculate_cpm spend impressions) (\<lambda>cpm.
       py_bind (calculate_roas spend conversion_value) (\<lambda>roas.
         let created_date = (case campaign ''created_time'' of None \<Rightarrow> [] | Some t \<Rightarrow> t);
             days_running = estimate_days_running lib created_date
         in
       py_bind (performance_score_call th spend roas ctr conversions) (\<lambda>performance_score.
         let issues = identify_campaign_issues th spend roas ctr cpc conversions days_running;
             recommendations =
               generate_campaign_recommendations th spend roas ctr cpc conversions issues
         in Inr (Some
              \<lparr> CampaignAnalysis.campaign_id = campaign_id,
                CampaignAnalysis.campaign_name =
                  (case campaign ''name'' of None \<Rightarrow> ''Unknown'' | Some n \<Rightarrow> n),
                spend = spend,
                impressions = impressions,
                clicks = clicks,
                conversions = conversions,
                conversion_value = conversion_value,
                ctr = ctr,
                cpc = cpc,
                cpm = cpm,
                roas = roas,
                status = (case campaign ''status'' of None \<Rightarrow> ''UNKNOWN'' | Some s \<Rightarrow> s),
                days_running = days_running,
                performance_score = performance_score,
                issues = issues,
                CampaignAnalysis.recommendations = recommendations \<rparr>))))))))))))))"

text \<open>\<^verbatim>\<open>except Exception\<close>: whatever the body raises is logged and becomes \<^verbatim>\<open>None\<close>.\<close>

definition analyze_single_campaign ::
  "thresholds \<Rightarrow> pylib \<Rightarrow> (string \<Rightarrow> string \<Rightarrow> InsightsResponse) \<Rightarrow>
   (string \<rightharpoonup> string) \<Rightarrow> string \<Rightarrow> CampaignAnalysis option" where
  "analyze_single_campaign th lib get_insights campaign time_range =
     (case analyze_single_campaign_try th lib get_insights campaign time_range of
        Inl e \<Rightarrow> None
      | Inr result \<Rightarrow> result)"

subsection \<open>Account-level aggregation\<close>

definition generate_account_recommendations ::
  "thresholds \<Rightarrow> CampaignAnalysis list \<Rightarrow> string list" where
  "generate_account_recommendations th analyses =
     (let recommendations = [];
          negative_roi = filter (\<lambda>a. roas a < 1.0 \<and> spend a > 50) analyses;
          recommendations = (if negative_roi \<noteq> []
             then recommendations @
                    [''Pause '' @ py_str_nat (length negative_roi) @
                     '' underperforming campaigns with negative ROI'']
             else recommendations);
          top_performers = take 2 (py_sorted roas True analyses);
          recommendations = (if top_performers \<noteq> [] \<and> roas (hd top_performers) > good_roas th
             then recommendations @
                    [''Increase budget for top performer: '' @
                     CampaignAnalysis.campaign_name (hd top_performers)]
             else recommendations);
          low_ctr = filter (\<lambda>a. ctr a < 0.5 / 100 \<and> spend a > 25) analyses;
          recommendations = (if low_ctr \<noteq> []
             then recommendations @
                    [''Review creative for '' @ py_str_nat (length low_ctr) @
                     '' campaigns with very low CTR'']
             else recommendations);
          recommendations = (if recommendations = []
             then recommendations @
                    [''Account performing well - consider testing new campaigns'']
             else recommendations)
      in recommendations)"

text \<open>The three dictionary literals appended by \<^verbatim>\<open>_generate_action_items\<close>.\<close>

definition pause_campaign_item :: "pylib \<Rightarrow> CampaignAnalysis \<Rightarrow> ActionItem" where
  "pause_campaign_item lib analysis =
     \<lparr> priority = ''high'',
       action = ''pause_campaign'',
       ActionItem.campaign_id = CampaignAnalysis.campaign_id analysis,
       ActionItem.campaign_name = CampaignAnalysis.campaign_name analysis,
       reason = ''Negative ROI ('' @ format_fixed lib 2 (roas analysis) @
                ''x) after significant spend ($'' @ format_fixed lib 2 (spend analysis) @ '')'' \<rparr>"

definition review_creative_item :: "pylib \<Rightarrow> CampaignAnalysis \<Rightarrow> ActionItem" where
  "review_creative_item lib analysis =
     \<lparr> priority = ''medium'',
       action = ''review_creative'',
       ActionItem.campaign_id = CampaignAnalysis.campaign_id analysis,
       ActionItem.campaign_name = CampaignAnalysis.campaign_name analysis,
       reason = ''Very low CTR ('' @ format_fixed lib 2 (ctr analysis * 100) @
                ''%) despite spend'' \<rparr>"

definition increase_budget_item :: "pylib \<Rightarrow> CampaignAnalysis \<Rightarrow> ActionItem" where
  "increase_budget_item lib analysis =
     \<lparr> priority = ''low'',
       action = ''increase_budget'',
       ActionItem.campaign_id = CampaignAnalysis.campaign_id analysis,
       ActionItem.campaign_name = CampaignAnalysis.campaign_name analysis,
       reason = ''High-performing campaign (ROAS: '' @ format_fixed lib 2 (roas analysis) @
                ''x, Score: '' @ format_fixed lib 0 (performance_score analysis) @ '')'' \<rparr>"

text \<open>
  \<^verbatim>\<open>priority_order = {"high": 0, "medium": 1, "low": 2}\<close> and the sort key
  \<^verbatim>\<open>priority_order.get(x["priority"], 2)\<close>.
\<close>

definition priority_order :: "(string \<times> nat) list" where
  "priority_order = [(''high'', 0), (''medium'', 1), (''low'', 2)]"

definition priority_key :: "ActionItem \<Rightarrow> nat" where
  "priority_key x = (case map_of priority_order (priority x) of None \<Rightarrow> 2 | Some rank \<Rightarrow> rank)"

definition sort_by_priority :: "ActionItem list \<Rightarrow> ActionItem list" where
  "sort_by_priority action_items = py_sorted priority_key False action_items" for action_items

text \<open>The three loops, each appending in the order of \<^verbatim>\<open>analyses\<close>; the list before sorting.\<close>

definition collect_action_items ::
  "thresholds \<Rightarrow> pylib \<Rightarrow> CampaignAnalysis list \<Rightarrow> ActionItem list" where
  "collect_action_items th lib analyses =
     (let action_items = [];
          action_items = foldl (\<lambda>items analysis.
              if roas analysis < 1.0 \<and> spend analysis > 100
              then items @ [pause_campaign_item lib analysis] else items)
            action_items analyses;
          action_items = foldl (\<lambda>items analysis.
              if ctr analysis < 0.5 / 100 \<and> spend analysis > 50
              then items @ [review_creative_item lib analysis] else items)
            action_items analyses;
          action_items = foldl (\<lambda>items analysis.
              if roas analysis > good_roas th \<and> performance_score analysis > 80
              then items @ [increase_budget_item lib analysis] else items)
            action_items analyses
      in action_items)"

definition generate_action_items ::
  "thresholds \<Rightarrow> pylib \<Rightarrow> CampaignAnalysis list \<Rightarrow> ActionItem list" where
  "generate_action_items th lib analyses =
     sort_by_priority (collect_action_items th lib analyses)"

definition determine_account_health ::
  "thresholds \<Rightarrow> real \<Rightarrow> CampaignAnalysis list \<Rightarrow> string" where
  "determine_account_health th average_roas analyses =
     (if average_roas \<ge> good_roas th then ''Excellent''
      else if average_roas \<ge> 2.0 then ''Good''
      else if average_roas \<ge> 1.0 then ''Fair''
      else ''Needs Attention'')" for average_roas

text \<open>The two selections of \<^verbatim>\<open>analyze_account_campaigns\<close>.\<close>

definition select_top_performers :: "CampaignAnalysis list \<Rightarrow> CampaignAnalysis list" where
  "select_top_performers campaign_analyses =
     take 3 (py_sorted performance_score True campaign_analyses)"

definition select_underperformers :: "CampaignAnalysis list \<Rightarrow> CampaignAnalysis list" where
  "select_underperformers campaign_analyses =
     take 3 (py_sorted performance_score False campaign_analyses)"

text \<open>
  The result dictionary: \<open>Failed\<close> is \<^verbatim>\<open>{"success": False, "error": ...}\<close>, \<open>NoData\<close> is
  the success answer whose \<^verbatim>\<open>analysis\<close> holds a message, three zero totals and an
  account health, \<open>Analysed\<close> is the success answer built from the \<^verbatim>\<open>AccountAnalysis\<close>
  (its rendering by \<^verbatim>\<open>_format_account_analysis\<close> is not modelled).
\<close>

datatype analysis_result =
    Failed string
  | NoData string real int real string
  | Analysed AccountAnalysis

text \<open>The \<^verbatim>\<open>for campaign in campaigns\<close> loop with its three accumulators.\<close>

definition analyze_loop ::
  "((string \<rightharpoonup> string) \<Rightarrow> CampaignAnalysis option) \<Rightarrow> (string \<rightharpoonup> string) list \<Rightarrow>
   CampaignAnalysis list \<times> real \<times> int" where
  "analyze_loop single campaigns =
     foldl (\<lambda>(campaign_analyses, total_spend, total_conversions) campaign.
              (case single campaign of
                 None \<Rightarrow> (campaign_analyses, total_spend, total_conversions)
               | Some analysis \<Rightarrow>
                   (campaign_analyses @ [analysis],
                    total_spend + spend analysis,
                    total_conversions + conversions analysis)))
           ([], 0, 0) campaigns" for campaigns

text \<open>
  \<^verbatim>\<open>analyze_account_campaigns\<close>. Nothing after the call of \<^verbatim>\<open>get_campaigns\<close> raises in
  this model, so the outer \<^verbatim>\<open>except Exception\<close> has no branch.
\<close>

definition analyze_account_campaigns ::
  "thresholds \<Rightarrow> pylib \<Rightarrow> (string \<Rightarrow> CampaignsResponse) \<Rightarrow>
   (string \<Rightarrow> string \<Rightarrow> InsightsResponse) \<Rightarrow> string \<Rightarrow> string \<Rightarrow> analysis_result" where
  "analyze_account_campaigns th lib get_campaigns get_insights account_id time_range =
     (let campaigns_response = get_campaigns account_id in
      if \<not> CampaignsResponse.success campaigns_response then
        Failed (''Failed to get campaigns: '' @
                (case error campaigns_response of None \<Rightarrow> ''None'' | Some e \<Rightarrow> e))
      else
        let campaigns = CampaignsResponse.campaigns campaigns_response in
        if campaigns = [] then
          NoData ''No active campaigns found to analyze'' 0 0 0 ''No Data''
        else
          (let (campaign_analyses, total_spend, total_conversions) =
                 analyze_loop
                   (\<lambda>campaign. analyze_single_campaign th lib get_insights campaign time_range)
                   campaigns
           in  if campaign_analyses = [] then
                 NoData ''No campaign data available for analysis'' 0 0 0 ''No Data''
               else
                 let average_roas =
                       sum_list (map roas campaign_analyses) / real (length campaign_analyses);
                     top_performers = select_top_performers campaign_analyses;
                     underperformers = select_underperformers campaign_analyses;
                     recommendations = generate_account_recommendations th campaign_analyses;
                     action_items = generate_action_items th lib campaign_analyses;
                     account_health = determine_account_health th average_roas campaign_analyses
                 in Analysed
                      \<lparr> total_spend = total_spend,
                        total_conversions = total_conversions,
                        average_roas = average_roas,
                        account_health = account_health,
                        top_performers = top_performers,
                        underperformers = underperformers,
                        AccountAnalysis.recommendations = recommendations,
                        action_items = action_items \<rparr>))"

subsection \<open>Orders and bounds named by the specification\<close>

text \<open>The order \<open>Needs Attention < Fair < Good < Excellent\<close> on account health.\<close>

definition spec_health_rank :: "string \<Rightarrow> nat" where
  "spec_health_rank h =
     (if h = ''Excellent'' then 3 else if h = ''Good'' then 2
      else if h = ''Fair'' then 1 else 0)"

text \<open>
  The upper bound of the requested window, for the two tokens whose bound the
  specification states.
\<close>

definition spec_window_upper_bound :: "string \<Rightarrow> int option" where
  "spec_window_upper_bound time_range =
     (if time_range = ''last_7d'' then Some 7
      else if time_range = ''last_30d'' then Some 30
      else None)"

subsection \<open>Concrete inputs\<close>

text \<open>
  An account with four campaigns: one without an id, one whose insights cannot be
  fetched, one whose row holds an unparsable conversion count, and one usable campaign
  (\<open>example_analysis\<close> is its analysis). The second account has only the first three.
\<close>

definition example_lib :: pylib where
  "example_lib =
     \<lparr> float_of_str = (\<lambda>s. if s = ''200'' then Some 200 else None),
       int_of_str = (\<lambda>s. if s = ''4'' then Some 4 else None),
       days_since = (\<lambda>s. if s = ''2020-01-01T00:00:00Z'' then Some 2000 else None),
       format_fixed = (\<lambda>d x. ''#'') \<rparr>"

definition example_get_insights :: "string \<Rightarrow> string \<Rightarrow> InsightsResponse" where
  "example_get_insights object_id time_range =
     (if object_id = ''c2'' then
        \<lparr> InsightsResponse.success = False, insights = None \<rparr>
      else if object_id = ''c3'' then
        \<lparr> InsightsResponse.success = True,
          insights = Some (InsightsDict
            [(''2025-01-01'', [''spend'' \<mapsto> PStr ''200'', ''conversions'' \<mapsto> PStr ''N/A''])]) \<rparr>
      else
        \<lparr> InsightsResponse.success = True,
          insights = Some (InsightsDict
            [(''2025-01-01'', [''spend'' \<mapsto> PStr ''200'', ''conversions'' \<mapsto> PStr ''4''])]) \<rparr>)"

definition example_get_campaigns :: "string \<Rightarrow> CampaignsResponse" where
  "example_get_campaigns account_id =
     \<lparr> CampaignsResponse.success = True, error = None,
       campaigns = [[''name'' \<mapsto> ''no id''], [''id'' \<mapsto> ''c2''], [''id'' \<mapsto> ''c3''],
                    [''id'' \<mapsto> ''c4'', ''name'' \<mapsto> ''Spring'']] \<rparr>"

definition example_analysis :: CampaignAnalysis where
  "example_analysis =
     \<lparr> CampaignAnalysis.campaign_id = ''c4'', CampaignAnalysis.campaign_name = ''Spring'',
       spend = 200, impressions = 0, clicks = 0, conversions = 4,
       conversion_value = 0, ctr = 0, cpc = 0, cpm = 0, roas = 0,
       status = ''UNKNOWN'', days_running = 30, performance_score = 55,
       issues =
         [''Negative ROI - spending more than earning'',
          ''Very low click-through rate'', ''Low conversion volume''],
       CampaignAnalysis.recommendations =
         [''Test different ad creative or copy'',
          ''Review audience targeting for relevance'',
          ''Review landing page experience'',
          ''Test different call-to-action buttons''] \<rparr>"

definition example_get_campaigns_unusable :: "string \<Rightarrow> CampaignsResponse" where
  "example_get_campaigns_unusable account_id =
     \<lparr> CampaignsResponse.success = True, error = None,
       campaigns = [[''name'' \<mapsto> ''no id''], [''id'' \<mapsto> ''c2''], [''id'' \<mapsto> ''c3'']] \<rparr>"

section \<open>Verified properties\<close>

subsection \<open>Derived metrics\<close>

lemma ctr_overflow: "calculate_ctr (10 ^ 309) 1 = Inl OverflowError"
  by (simp add: calculate_ctr_def truediv_int_int_def float_overflow_bound_def)

text \<open>
  C3: with a zero denominator each metric helper returns \<open>0.0\<close>: \<open>calculate_ctr\<close> and
  \<open>calculate_cpm\<close> for zero impressions, \<open>calculate_cpc\<close> for zero clicks,
  \<open>calculate_roas\<close> for zero spend whatever the conversion value; and on no input does
  any of the four raise a division by zero.
\<close>

theorem metrics_zero_denominator:
  "calculate_ctr c 0 = Inr 0 \<and> calculate_cpc s 0 = Inr 0 \<and>
   calculate_cpm s 0 = Inr 0 \<and> calculate_roas 0 v = Inr 0 \<and>
   calculate_ctr c i \<noteq> Inl ZeroDivisionError \<and>
   calculate_cpc s c \<noteq> Inl ZeroDivisionError \<and>
   calculate_cpm s i \<noteq> Inl ZeroDivisionError \<and>
   calculate_roas s v \<noteq> Inl ZeroDivisionError"
proof -
  have zero: "calculate_ctr c 0 = Inr 0" "calculate_cpc s 0 = Inr 0"
    "calculate_cpm s 0 = Inr 0" "calculate_roas 0 v = Inr 0"
    by (simp_all add: calculate_ctr_def calculate_cpc_def calculate_cpm_def
          calculate_roas_def)
  have ctr: "calculate_ctr c i \<noteq> Inl ZeroDivisionError"
    by (simp add: calculate_ctr_def truediv_int_int_def)
  have cpc: "calculate_cpc s c \<noteq> Inl ZeroDivisionError"
    by (cases "int_to_float c")
       (auto simp: calculate_cpc_def truediv_float_int_def int_to_float_def
          split: if_splits)
  have cpm: "calculate_cpm s i \<noteq> Inl ZeroDivisionError"
    by (cases "int_to_float i")
       (auto simp: calculate_cpm_def truediv_float_int_def int_to_float_def
          split: if_splits)
  have roas: "calculate_roas s v \<noteq> Inl ZeroDivisionError"
    by (simp add: calculate_roas_def truediv_def)
  show ?thesis
    using zero ctr cpc cpm roas by simp
qed

subsection \<open>Performance score\<close>








subsection \<open>Issue detection\<close>

lemma no_spend_iff:
  "''No spend detected - campaign may not be delivering''
      \<in> set (identify_campaign_issues th s r c p n d) \<longleftrightarrow> s = 0"
  by (simp add: identify_campaign_issues_def Let_def)

lemma negative_roi_iff:
  "''Negative ROI - spending more than earning''
      \<in> set (identify_campaign_issues th s r c p n d) \<longleftrightarrow> r < 1 \<and> s > 50"
  by (simp add: identify_campaign_issues_def Let_def)

text \<open>
  C7: a campaign with zero spend always carries the no-spend tag, and no issue list
  carries both the no-spend tag and the negative-ROI tag.
\<close>

theorem no_spend_tag:
  "(s = 0 \<longrightarrow> ''No spend detected - campaign may not be delivering''
                 \<in> set (identify_campaign_issues th s r c p n d)) \<and>
   \<not> (''No spend detected - campaign may not be delivering''
          \<in> set (identify_campaign_issues th s r c p n d) \<and>
       ''Negative ROI - spending more than earning''
          \<in> set (identify_campaign_issues th s r c p n d))"
  unfolding no_spend_iff negative_roi_iff by simp

theorem no_spend_tag_witness:
  "(0::real) = 0 \<and>
   identify_campaign_issues ANALYSIS_THRESHOLDS 0 0 0 0 0 30 =
     [''Low conversion volume'', ''No spend detected - campaign may not be delivering''] \<and>
   ''No spend detected - campaign may not be delivering''
      \<in> set (identify_campaign_issues ANALYSIS_THRESHOLDS 0 0 0 0 0 30) \<and>
   ''Negative ROI - spending more than earning''
      \<notin> set (identify_campaign_issues ANALYSIS_THRESHOLDS 0 0 0 0 0 30)"
  using no_spend_tag [of 0 ANALYSIS_THRESHOLDS 0 0 0 0 30]
  by (simp add: identify_campaign_issues_def ANALYSIS_THRESHOLDS_def Let_def)

subsection \<open>Campaign recommendations\<close>

text \<open>
  The recommendation rule for a negative return looks for the element \<open>''Negative ROI''\<close>,
  while the detector appends the longer tag: the key is never in a detected issue list.
\<close>

lemma negative_roi_key_never_detected:
  "''Negative ROI'' \<notin> set (identify_campaign_issues th s r c p n d)"
  by (simp add: identify_campaign_issues_def Let_def)

lemma pause_needs_key:
  "''Consider pausing campaign - negative return on investment''
     \<in> set (generate_campaign_recommendations th s r c p n is) \<Longrightarrow> ''Negative ROI'' \<in> set is"
  by (simp add: generate_campaign_recommendations_def Let_def split: if_splits)

text \<open>
  C1: the scenario of the specification (spend 200, no impressions, clicks, conversions
  or conversion value, 30 days running) has ROAS 0, carries the negative-ROI tag and
  scores 50, but its recommendations are the four strings of the low-CTR and
  low-conversion rules; and for no input at all do the recommendations computed from
  the detected issues contain the pause suggestion.
\<close>

theorem pause_recommendation_never_generated:
  "calculate_roas 200 0 = Inr 0 \<and>
   ''Negative ROI - spending more than earning''
      \<in> set (identify_campaign_issues ANALYSIS_THRESHOLDS 200 0 0 0 0 30) \<and>
   calculate_performance_score ANALYSIS_THRESHOLDS 200 0 0 0 = 50 \<and>
   generate_campaign_recommendations ANALYSIS_THRESHOLDS 200 0 0 0 0
       (identify_campaign_issues ANALYSIS_THRESHOLDS 200 0 0 0 0 30) =
     [''Test different ad creative or copy'', ''Review audience targeting for relevance'',
      ''Review landing page experience'', ''Test different call-to-action buttons''] \<and>
   ''Consider pausing campaign - negative return on investment''
      \<notin> set (generate_campaign_recommendations th s r c p n
                 (identify_campaign_issues th s r c p n d))"
proof -
  have a: "calculate_roas 200 0 = Inr 0"
    by (simp add: calculate_roas_def truediv_def)
  have i: "identify_campaign_issues ANALYSIS_THRESHOLDS 200 0 0 0 0 30 =
     [''Negative ROI - spending more than earning'', ''Very low click-through rate'',
      ''Low conversion volume'']"
    by (simp add: identify_campaign_issues_def ANALYSIS_THRESHOLDS_def Let_def)
  have sc: "calculate_performance_score ANALYSIS_THRESHOLDS 200 0 0 0 = 50"
    by (simp add: calculate_performance_score_def ANALYSIS_THRESHOLDS_def Let_def)
  have g: "generate_campaign_recommendations ANALYSIS_THRESHOLDS 200 0 0 0 0
       [''Negative ROI - spending more than earning'', ''Very low click-through rate'',
        ''Low conversion volume''] =
     [''Test different ad creative or copy'', ''Review audience targeting for relevance'',
      ''Review landing page experience'', ''Test different call-to-action buttons'']"
    by (simp add: generate_campaign_recommendations_def Let_def)
  have n: "''Consider pausing campaign - negative return on investment''
      \<notin> set (generate_campaign_recommendations th s r c p n
                 (identify_campaign_issues th s r c p n d))"
    using pause_needs_key negative_roi_key_never_detected by blast
  show ?thesis
    unfolding i using a sc g n by simp
qed

subsection \<open>Account health\<close>

text \<open>
  C8: with the shipped thresholds the health is Excellent from 3.0, Good from 2.0, Fair
  from 1.0 and Needs Attention below, and it never decreases when the average ROAS grows.
\<close>

theorem account_health_thresholds_monotone:
  "determine_account_health ANALYSIS_THRESHOLDS r xs =
     (if r \<ge> 3.0 then ''Excellent'' else if r \<ge> 2.0 then ''Good''
      else if r \<ge> 1.0 then ''Fair'' else ''Needs Attention'') \<and>
   (r1 \<le> r2 \<longrightarrow>
      spec_health_rank (determine_account_health ANALYSIS_THRESHOLDS r1 xs)
        \<le> spec_health_rank (determine_account_health ANALYSIS_THRESHOLDS r2 ys))"
  by (simp add: determine_account_health_def ANALYSIS_THRESHOLDS_def spec_health_rank_def)

theorem account_health_thresholds_monotone_witness:
  "(1/2 :: real) \<le> 5/2 \<and>
   determine_account_health ANALYSIS_THRESHOLDS (1/2) [] = ''Needs Attention'' \<and>
   determine_account_health ANALYSIS_THRESHOLDS (5/2) [] = ''Good'' \<and>
   spec_health_rank ''Needs Attention'' \<le> spec_health_rank ''Good''"
  using account_health_thresholds_monotone [of "1/2" "[]" "1/2" "5/2" "[]"]
  by (simp add: determine_account_health_def ANALYSIS_THRESHOLDS_def spec_health_rank_def)

text \<open>
  C10: the account health is a function of the average ROAS alone; the list of campaign
  analyses passed along has no influence on it.
\<close>

theorem account_health_ignores_analyses:
  "determine_account_health th r xs = determine_account_health th r ys"
  by (simp add: determine_account_health_def)

subsection \<open>Sorting\<close>

text \<open>What \<open>py_sorted\<close> guarantees: a permutation, ordered by key, equal keys in input order.\<close>

lemma mset_py_sorted: "mset (py_sorted key r xs) = mset xs"
  by (simp add: py_sorted_def)

lemma py_sorted_stable:
  "filter (\<lambda>y. key y = k) (py_sorted key r xs) = filter (\<lambda>y. key y = k) xs"
proof (cases r)
  case True
  have "filter (\<lambda>y. key y = k) (rev (sort_key key (rev xs)))
          = rev (filter (\<lambda>y. key y = k) (sort_key key (rev xs)))"
    by (simp add: rev_filter)
  also have "\<dots> = rev (filter (\<lambda>y. key y = k) (rev xs))"
    by (simp only: sort_key_stable)
  also have "\<dots> = filter (\<lambda>y. key y = k) xs"
    by (simp add: rev_filter)
  finally show ?thesis using True by (simp add: py_sorted_def)
next
  case False
  then show ?thesis by (simp add: py_sorted_def sort_key_stable)
qed

lemma py_sorted_ascending:
  "sorted_wrt (\<lambda>a b. key a \<le> key b) (py_sorted key False xs)"
  using sorted_sort_key [of key xs] by (simp add: py_sorted_def sorted_map)

lemma py_sorted_descending:
  "sorted_wrt (\<lambda>a b. key a \<ge> key b) (py_sorted key True xs)"
proof -
  have "sorted_wrt (\<lambda>a b. key a \<le> key b) (sort_key key (rev xs))"
    using sorted_sort_key [of key "rev xs"] by (simp add: sorted_map)
  then show ?thesis
    by (simp add: py_sorted_def sorted_wrt_rev)
qed

lemma py_sorted_already:
  "sorted (map key xs) \<Longrightarrow> py_sorted key False xs = xs"
  by (simp add: py_sorted_def sort_key_id_if_sorted)

lemma foldl_append_if:
  "foldl (\<lambda>items a. if P a then items @ [f a] else items) acc xs
     = acc @ map f (filter P xs)"
  by (induction xs arbitrary: acc) simp_all

subsection \<open>Top performers and underperformers\<close>

lemma five_campaigns_top:
  "select_top_performers
     [a\<lparr>performance_score := 10\<rparr>, b\<lparr>performance_score := 20\<rparr>,
      c\<lparr>performance_score := 30\<rparr>, d\<lparr>performance_score := 40\<rparr>,
      e\<lparr>performance_score := 50\<rparr>] =
     [e\<lparr>performance_score := 50\<rparr>, d\<lparr>performance_score := 40\<rparr>,
      c\<lparr>performance_score := 30\<rparr>]"
  by (simp add: select_top_performers_def py_sorted_def)

lemma five_campaigns_under:
  "select_underperformers
     [a\<lparr>performance_score := 10\<rparr>, b\<lparr>performance_score := 20\<rparr>,
      c\<lparr>performance_score := 30\<rparr>, d\<lparr>performance_score := 40\<rparr>,
      e\<lparr>performance_score := 50\<rparr>] =
     [a\<lparr>performance_score := 10\<rparr>, b\<lparr>performance_score := 20\<rparr>,
      c\<lparr>performance_score := 30\<rparr>]"
  by (simp add: select_underperformers_def py_sorted_def)

text \<open>
  C5: the top performers are the first three of the list sorted by descending score and
  the underperformers the first three of the list sorted by ascending score; both sorted
  lists are permutations of the input that keep campaigns of equal score in input
  order. For five campaigns scored 10, 20, 30, 40, 50 the top performers score
  50, 40, 30 and the underperformers 10, 20, 30, the campaign scored 30 being in both.
\<close>

theorem top_and_underperformers:
  "select_top_performers xs = take 3 (py_sorted performance_score True xs) \<and>
   mset (py_sorted performance_score True xs) = mset xs \<and>
   sorted_wrt (\<lambda>a b. performance_score a \<ge> performance_score b)
     (py_sorted performance_score True xs) \<and>
   (\<forall>k. filter (\<lambda>a. performance_score a = k) (py_sorted performance_score True xs)
          = filter (\<lambda>a. performance_score a = k) xs) \<and>
   select_underperformers xs = take 3 (py_sorted performance_score False xs) \<and>
   mset (py_sorted performance_score False xs) = mset xs \<and>
   sorted_wrt (\<lambda>a b. performance_score a \<le> performance_score b)
     (py_sorted performance_score False xs) \<and>
   (\<forall>k. filter (\<lambda>a. performance_score a = k) (py_sorted performance_score False xs)
          = filter (\<lambda>a. performance_score a = k) xs) \<and>
   select_top_performers
     [a\<lparr>performance_score := 10\<rparr>, b\<lparr>performance_score := 20\<rparr>,
      c\<lparr>performance_score := 30\<rparr>, d\<lparr>performance_score := 40\<rparr>,
      e\<lparr>performance_score := 50\<rparr>] =
     [e\<lparr>performance_score := 50\<rparr>, d\<lparr>performance_score := 40\<rparr>,
      c\<lparr>performance_score := 30\<rparr>] \<and>
   select_underperformers
     [a\<lparr>performance_score := 10\<rparr>, b\<lparr>performance_score := 20\<rparr>,
      c\<lparr>performance_score := 30\<rparr>, d\<lparr>performance_score := 40\<rparr>,
      e\<lparr>performance_score := 50\<rparr>] =
     [a\<lparr>performance_score := 10\<rparr>, b\<lparr>performance_score := 20\<rparr>,
      c\<lparr>performance_score := 30\<rparr>]"
  by (intro conjI allI select_top_performers_def select_underperformers_def
        mset_py_sorted py_sorted_descending py_sorted_ascending py_sorted_stable
        five_campaigns_top five_campaigns_under)

subsection \<open>Action items\<close>

lemma collect_action_items_eq:
  "collect_action_items th lib xs =
     map (pause_campaign_item lib) (filter (\<lambda>a. roas a < 1.0 \<and> spend a > 100) xs) @
     map (review_creative_item lib) (filter (\<lambda>a. ctr a < 0.005 \<and> spend a > 50) xs) @
     map (increase_budget_item lib)
       (filter (\<lambda>a. roas a > good_roas th \<and> performance_score a > 80) xs)"
  by (simp add: collect_action_items_def Let_def foldl_append_if)

lemma priority_key_items:
  "priority_key (pause_campaign_item lib a) = 0"
  "priority_key (review_creative_item lib a) = 1"
  "priority_key (increase_budget_item lib a) = 2"
  by (simp_all add: priority_key_def priority_order_def pause_campaign_item_def
        review_creative_item_def increase_budget_item_def)

lemma sorted_map_const: "sorted (map (\<lambda>x. (c::nat)) ys)"
  by (induction ys) simp_all

lemma collect_sorted: "sorted (map priority_key (collect_action_items th lib xs))"
  by (simp add: collect_action_items_eq sorted_append priority_key_items o_def
        sorted_map_const)

lemma generate_action_items_eq:
  "generate_action_items th lib xs = collect_action_items th lib xs"
  by (simp add: generate_action_items_def sort_by_priority_def py_sorted_already collect_sorted)

lemma sort_low_high:
  "sort_by_priority [l\<lparr>priority := ''low''\<rparr>, h\<lparr>priority := ''high''\<rparr>] =
     [h\<lparr>priority := ''high''\<rparr>, l\<lparr>priority := ''low''\<rparr>]"
  by (simp add: sort_by_priority_def py_sorted_def priority_key_def priority_order_def)

lemma item_fields:
  "priority (pause_campaign_item lib a) = ''high'' \<and>
   action (pause_campaign_item lib a) = ''pause_campaign'' \<and>
   priority (review_creative_item lib a) = ''medium'' \<and>
   action (review_creative_item lib a) = ''review_creative'' \<and>
   priority (increase_budget_item lib a) = ''low'' \<and>
   action (increase_budget_item lib a) = ''increase_budget''"
  by (simp add: pause_campaign_item_def review_creative_item_def increase_budget_item_def)

lemma sort_by_priority_props:
  "mset (sort_by_priority items) = mset items"
  "sorted_wrt (\<lambda>x y. priority_key x \<le> priority_key y) (sort_by_priority items)"
  "filter (\<lambda>x. priority_key x = k) (sort_by_priority items)
     = filter (\<lambda>x. priority_key x = k) items"
  by (simp_all add: sort_by_priority_def mset_py_sorted py_sorted_ascending py_sorted_stable)

text \<open>
  C6: the action items are exactly the pause items (high) of the campaigns with
  ROAS below 1 and spend above 100, the review items (medium) of those with CTR below
  0.005 and spend above 50, and the budget items (low) of those with ROAS above
  \<open>good_roas\<close> and score above 80, one campaign possibly giving several. The final
  sort keeps every item, orders by rank high 0, medium 1, low 2, and keeps items of equal
  rank in generation order; a low item followed by a high item comes out high first.
\<close>

theorem action_items_rules_and_order:
  "generate_action_items th lib xs =
     map (pause_campaign_item lib) (filter (\<lambda>a. roas a < 1.0 \<and> spend a > 100) xs) @
     map (review_creative_item lib) (filter (\<lambda>a. ctr a < 0.005 \<and> spend a > 50) xs) @
     map (increase_budget_item lib)
       (filter (\<lambda>a. roas a > good_roas th \<and> performance_score a > 80) xs) \<and>
   (priority (pause_campaign_item lib a) = ''high'' \<and>
    action (pause_campaign_item lib a) = ''pause_campaign'' \<and>
    priority (review_creative_item lib a) = ''medium'' \<and>
    action (review_creative_item lib a) = ''review_creative'' \<and>
    priority (increase_budget_item lib a) = ''low'' \<and>
    action (increase_budget_item lib a) = ''increase_budget'') \<and>
   generate_action_items th lib xs = sort_by_priority (collect_action_items th lib xs) \<and>
   mset (sort_by_priority items) = mset items \<and>
   sorted_wrt (\<lambda>x y. priority_key x \<le> priority_key y) (sort_by_priority items) \<and>
   (\<forall>k. filter (\<lambda>x. priority_key x = k) (sort_by_priority items)
          = filter (\<lambda>x. priority_key x = k) items) \<and>
   priority_key (x\<lparr>priority := ''high''\<rparr>) = 0 \<and>
   priority_key (x\<lparr>priority := ''medium''\<rparr>) = 1 \<and>
   priority_key (x\<lparr>priority := ''low''\<rparr>) = 2 \<and>
   sort_by_priority [l\<lparr>priority := ''low''\<rparr>, h\<lparr>priority := ''high''\<rparr>] =
     [h\<lparr>priority := ''high''\<rparr>, l\<lparr>priority := ''low''\<rparr>]"
proof -
  have ranks: "priority_key (x\<lparr>priority := ''high''\<rparr>) = 0"
    "priority_key (x\<lparr>priority := ''medium''\<rparr>) = 1"
    "priority_key (x\<lparr>priority := ''low''\<rparr>) = 2"
    by (simp_all add: priority_key_def priority_order_def)
  have exact: "generate_action_items th lib xs =
     map (pause_campaign_item lib) (filter (\<lambda>a. roas a < 1.0 \<and> spend a > 100) xs) @
     map (review_creative_item lib) (filter (\<lambda>a. ctr a < 0.005 \<and> spend a > 50) xs) @
     map (increase_budget_item lib)
       (filter (\<lambda>a. roas a > good_roas th \<and> performance_score a > 80) xs)"
    by (simp only: generate_action_items_eq collect_action_items_eq)
  show ?thesis
    by (intro conjI allI exact item_fields [THEN conjunct1]
          generate_action_items_def sort_by_priority_props ranks sort_low_high)
       (simp_all add: item_fields)
qed

subsection \<open>The example account and the days running\<close>

lemma example_issues:
  "identify_campaign_issues ANALYSIS_THRESHOLDS 200 0 0 0 4 30 =
     [''Negative ROI - spending more than earning'',
      ''Very low click-through rate'', ''Low conversion volume'']"
  by (simp add: identify_campaign_issues_def ANALYSIS_THRESHOLDS_def Let_def)

lemma example_recommendations:
  "generate_campaign_recommendations ANALYSIS_THRESHOLDS 200 0 0 0 4
     [''Negative ROI - spending more than earning'',
      ''Very low click-through rate'', ''Low conversion volume''] =
     [''Test different ad creative or copy'',
      ''Review audience targeting for relevance'',
      ''Review landing page experience'',
      ''Test different call-to-action buttons'']"
  by (simp add: generate_campaign_recommendations_def Let_def)

lemma example_score: "calculate_performance_score ANALYSIS_THRESHOLDS 200 0 0 4 = 55"
  by (simp add: calculate_performance_score_def ANALYSIS_THRESHOLDS_def Let_def)

lemma int_to_float_zero: "int_to_float 0 = Inr 0"
  by (simp add: int_to_float_def float_overflow_bound_def)

lemma example_score_call:
  "performance_score_call ANALYSIS_THRESHOLDS 200 0 0 4 = Inr 55"
  by (simp add: performance_score_call_def int_to_float_def float_overflow_bound_def
        example_score)

lemma example_single:
  "analyze_single_campaign ANALYSIS_THRESHOLDS example_lib example_get_insights
     [''id'' \<mapsto> ''c4'', ''name'' \<mapsto> ''Spring''] tr = Some example_analysis"
  by (simp add: analyze_single_campaign_def analyze_single_campaign_try_def
        example_get_insights_def example_lib_def py_bind_def get_or_0_def
        calculate_ctr_def calculate_cpc_def calculate_cpm_def calculate_roas_def
        truediv_def estimate_days_running_def Let_def int_to_float_zero example_score_call
        example_issues example_recommendations example_analysis_def)

lemma example_single_no_id:
  "analyze_single_campaign ANALYSIS_THRESHOLDS example_lib example_get_insights
     [''name'' \<mapsto> ''no id''] tr = None"
  by (simp add: analyze_single_campaign_def analyze_single_campaign_try_def)

lemma example_single_failed:
  "analyze_single_campaign ANALYSIS_THRESHOLDS example_lib example_get_insights
     [''id'' \<mapsto> ''c2''] tr = None"
  by (simp add: analyze_single_campaign_def analyze_single_campaign_try_def
        example_get_insights_def)

lemma example_try_raises:
  "analyze_single_campaign_try ANALYSIS_THRESHOLDS example_lib example_get_insights
     [''id'' \<mapsto> ''c3''] tr = Inl ValueError"
  by (simp add: analyze_single_campaign_try_def
        example_get_insights_def example_lib_def py_bind_def get_or_0_def)

lemma example_single_raises:
  "analyze_single_campaign ANALYSIS_THRESHOLDS example_lib example_get_insights
     [''id'' \<mapsto> ''c3''] tr = None"
  by (simp add: analyze_single_campaign_def example_try_raises)

text \<open>
  C4: the days running should never exceed the upper bound of the requested window,
  7 for \<open>last_7d\<close>. The code starts from 30, commented as the default for
  \<open>last_30d\<close>, caps at 30 and never reads the time range: for the seven-day window
  the example campaign, which has no creation time, is given 30 days running, above
  the bound of 7, and through \<open>days_running > 7\<close> the low-conversion issue.
\<close>

theorem days_running_exceeds_window:
  "analyze_single_campaign ANALYSIS_THRESHOLDS example_lib example_get_insights
     [''id'' \<mapsto> ''c4'', ''name'' \<mapsto> ''Spring''] ''last_7d'' = Some example_analysis \<and>
   [''id'' \<mapsto> ''c4'', ''name'' \<mapsto> ''Spring''] ''created_time'' = None \<and>
   days_running example_analysis = 30 \<and>
   spec_window_upper_bound ''last_7d'' = Some 7 \<and>
   \<not> days_running example_analysis \<le> 7 \<and>
   ''Low conversion volume'' \<in> set (issues example_analysis)"
  by (simp add: example_single example_analysis_def spec_window_upper_bound_def)

subsection \<open>Failure isolation\<close>

lemma single_skips_missing_id:
  "campaign ''id'' = None \<or> campaign ''id'' = Some [] \<Longrightarrow>
   analyze_single_campaign th lib gi campaign tr = None"
  by (auto simp: analyze_single_campaign_def analyze_single_campaign_try_def)

lemma single_skips_missing_insights:
  "campaign ''id'' = Some cid \<Longrightarrow>
   \<not> InsightsResponse.success (gi cid tr) \<or> insights (gi cid tr) = None \<or>
   insights (gi cid tr) = Some (InsightsDict []) \<or>
   insights (gi cid tr) = Some (InsightsList []) \<Longrightarrow>
   analyze_single_campaign th lib gi campaign tr = None"
  by (auto simp: analyze_single_campaign_def analyze_single_campaign_try_def Let_def)

lemma single_skips_exception:
  "analyze_single_campaign_try th lib gi campaign tr = Inl e \<Longrightarrow>
   analyze_single_campaign th lib gi campaign tr = None"
  by (simp add: analyze_single_campaign_def)

lemma foldl_loop:
  "foldl (\<lambda>(campaign_analyses, total_spend, total_conversions) campaign.
              (case single campaign of
                 None \<Rightarrow> (campaign_analyses, total_spend, total_conversions)
               | Some analysis \<Rightarrow>
                   (campaign_analyses @ [analysis],
                    total_spend + spend analysis,
                    total_conversions + conversions analysis)))
      (acc, s, n) cs =
   (acc @ List.map_filter single cs,
    s + sum_list (map spend (List.map_filter single cs)),
    n + sum_list (map conversions (List.map_filter single cs)))"
  by (induction cs arbitrary: acc s n) (auto split: option.splits)

lemma analyze_loop_eq:
  "analyze_loop single cs =
     (List.map_filter single cs,
      sum_list (map spend (List.map_filter single cs)),
      sum_list (map conversions (List.map_filter single cs)))"
  unfolding analyze_loop_def foldl_loop by simp

lemma account_failed_iff:
  "(\<exists>msg. analyze_account_campaigns th lib gc gi acct tr = Failed msg)
     \<longleftrightarrow> \<not> CampaignsResponse.success (gc acct)"
  by (auto simp: analyze_account_campaigns_def Let_def analyze_loop_eq)

lemma account_no_data:
  "CampaignsResponse.success (gc acct) \<Longrightarrow>
   List.map_filter (\<lambda>c. analyze_single_campaign th lib gi c tr) (campaigns (gc acct)) = [] \<Longrightarrow>
   analyze_account_campaigns th lib gc gi acct tr =
     NoData (if campaigns (gc acct) = [] then ''No active campaigns found to analyze''
             else ''No campaign data available for analysis'') 0 0 0 ''No Data''"
  by (simp add: analyze_account_campaigns_def Let_def analyze_loop_eq)

lemma account_analysed:
  "CampaignsResponse.success (gc acct) \<Longrightarrow>
   kept = List.map_filter (\<lambda>c. analyze_single_campaign th lib gi c tr) (campaigns (gc acct)) \<Longrightarrow>
   kept \<noteq> [] \<Longrightarrow>
   analyze_account_campaigns th lib gc gi acct tr =
     Analysed
       \<lparr> total_spend = sum_list (map spend kept),
         total_conversions = sum_list (map conversions kept),
         average_roas = sum_list (map roas kept) / real (length kept),
         account_health =
           determine_account_health th (sum_list (map roas kept) / real (length kept)) kept,
         top_performers = select_top_performers kept,
         underperformers = select_underperformers kept,
         AccountAnalysis.recommendations = generate_account_recommendations th kept,
         action_items = generate_action_items th lib kept \<rparr>"
  by (auto simp: analyze_account_campaigns_def Let_def analyze_loop_eq)

text \<open>
  C9: a campaign without an id (absent or empty), a campaign whose insights request
  fails or returns nothing, and a campaign whose analysis raises are all analysed to
  \<open>None\<close>; the loop keeps exactly the campaigns analysed to some result and sums spend and
  conversions over those alone; the account analysis fails only when the campaigns
  themselves could not be fetched; with no usable campaign it answers with the
  \<open>No Data\<close> record, and otherwise with the report computed from the kept analyses.
\<close>

theorem campaign_failures_are_skipped:
  "(campaign ''id'' = None \<or> campaign ''id'' = Some [] \<longrightarrow>
      analyze_single_campaign th lib gi campaign tr = None) \<and>
   (campaign ''id'' = Some cid \<and>
      (\<not> InsightsResponse.success (gi cid tr) \<or> insights (gi cid tr) = None \<or>
       insights (gi cid tr) = Some (InsightsDict []) \<or>
       insights (gi cid tr) = Some (InsightsList [])) \<longrightarrow>
      analyze_single_campaign th lib gi campaign tr = None) \<and>
   (analyze_single_campaign_try th lib gi campaign tr = Inl e \<longrightarrow>
      analyze_single_campaign th lib gi campaign tr = None) \<and>
   analyze_loop single cs =
     (List.map_filter single cs,
      sum_list (map spend (List.map_filter single cs)),
      sum_list (map conversions (List.map_filter single cs))) \<and>
   ((\<exists>msg. analyze_account_campaigns th lib gc gi acct tr = Failed msg)
      \<longleftrightarrow> \<not> CampaignsResponse.success (gc acct)) \<and>
   (CampaignsResponse.success (gc acct) \<and>
    List.map_filter (\<lambda>c. analyze_single_campaign th lib gi c tr) (campaigns (gc acct)) = []
      \<longrightarrow> analyze_account_campaigns th lib gc gi acct tr =
            NoData (if campaigns (gc acct) = [] then ''No active campaigns found to analyze''
                    else ''No campaign data available for analysis'') 0 0 0 ''No Data'') \<and>
   (\<forall>kept. CampaignsResponse.success (gc acct) \<and>
      kept = List.map_filter (\<lambda>c. analyze_single_campaign th lib gi c tr)
               (campaigns (gc acct)) \<and>
      kept \<noteq> []
      \<longrightarrow> analyze_account_campaigns th lib gc gi acct tr =
            Analysed
              \<lparr> total_spend = sum_list (map spend kept),
                total_conversions = sum_list (map conversions kept),
                average_roas = sum_list (map roas kept) / real (length kept),
                account_health =
                  determine_account_health th
                    (sum_list (map roas kept) / real (length kept)) kept,
                top_performers = select_top_performers kept,
                underperformers = select_underperformers kept,
                AccountAnalysis.recommendations = generate_account_recommendations th kept,
                action_items = generate_action_items th lib kept \<rparr>)"
proof -
  have h1: "campaign ''id'' = None \<or> campaign ''id'' = Some [] \<longrightarrow>
      analyze_single_campaign th lib gi campaign tr = None"
    using single_skips_missing_id [of campaign th lib gi tr] by blast
  have h2: "campaign ''id'' = Some cid \<and>
      (\<not> InsightsResponse.success (gi cid tr) \<or> insights (gi cid tr) = None \<or>
       insights (gi cid tr) = Some (InsightsDict []) \<or>
       insights (gi cid tr) = Some (InsightsList [])) \<longrightarrow>
      analyze_single_campaign th lib gi campaign tr = None"
    using single_skips_missing_insights [of campaign cid gi tr th lib] by blast
  have h3: "analyze_single_campaign_try th lib gi campaign tr = Inl e \<longrightarrow>
      analyze_single_campaign th lib gi campaign tr = None"
    using single_skips_exception [of th lib gi campaign tr e] by blast
  have h6: "CampaignsResponse.success (gc acct) \<and>
    List.map_filter (\<lambda>c. analyze_single_campaign th lib gi c tr) (campaigns (gc acct)) = []
      \<longrightarrow> analyze_account_campaigns th lib gc gi acct tr =
            NoData (if campaigns (gc acct) = [] then ''No active campaigns found to analyze''
                    else ''No campaign data available for analysis'') 0 0 0 ''No Data''"
    using account_no_data [of gc acct th lib gi tr] by blast
  have h7: "\<forall>kept. CampaignsResponse.success (gc acct) \<and>
      kept = List.map_filter (\<lambda>c. analyze_single_campaign th lib gi c tr)
               (campaigns (gc acct)) \<and>
      kept \<noteq> []
      \<longrightarrow> analyze_account_campaigns th lib gc gi acct tr =
            Analysed
              \<lparr> total_spend = sum_list (map spend kept),
                total_conversions = sum_list (map conversions kept),
                average_roas = sum_list (map roas kept) / real (length kept),
                account_health =
                  determine_account_health th
                    (sum_list (map roas kept) / real (length kept)) kept,
                top_performers = select_top_performers kept,
                underperformers = select_underperformers kept,
                AccountAnalysis.recommendations = generate_account_recommendations th kept,
                action_items = generate_action_items th lib kept \<rparr>"
    using account_analysed [of gc acct _ th lib gi tr] by blast
  show ?thesis
    by (intro conjI h1 h2 h3 h6 h7 analyze_loop_eq account_failed_iff)
qed

lemma example_kept:
  "List.map_filter
     (\<lambda>c. analyze_single_campaign ANALYSIS_THRESHOLDS example_lib example_get_insights c tr)
     (campaigns (example_get_campaigns acct)) = [example_analysis]"
  by (simp add: example_get_campaigns_def example_single example_single_no_id
        example_single_failed example_single_raises)

lemma example_kept_unusable:
  "List.map_filter
     (\<lambda>c. analyze_single_campaign ANALYSIS_THRESHOLDS example_lib example_get_insights c tr)
     (campaigns (example_get_campaigns_unusable acct)) = []"
  by (simp add: example_get_campaigns_unusable_def example_single_no_id
        example_single_failed example_single_raises)

theorem campaign_failures_are_skipped_witness:
  "analyze_single_campaign ANALYSIS_THRESHOLDS example_lib example_get_insights
     [''name'' \<mapsto> ''no id''] ''last_30d'' = None \<and>
   analyze_single_campaign ANALYSIS_THRESHOLDS example_lib example_get_insights
     [''id'' \<mapsto> ''c2''] ''last_30d'' = None \<and>
   analyze_single_campaign_try ANALYSIS_THRESHOLDS example_lib example_get_insights
     [''id'' \<mapsto> ''c3''] ''last_30d'' = Inl ValueError \<and>
   analyze_single_campaign ANALYSIS_THRESHOLDS example_lib example_get_insights
     [''id'' \<mapsto> ''c3''] ''last_30d'' = None \<and>
   CampaignsResponse.success (example_get_campaigns ''act_1'') \<and>
   (case analyze_account_campaigns ANALYSIS_THRESHOLDS example_lib example_get_campaigns
           example_get_insights ''act_1'' ''last_30d'' of
      Analysed account \<Rightarrow>
        total_spend account = 200 \<and> total_conversions account = 4 \<and>
        top_performers account = [example_analysis] \<and>
        underperformers account = [example_analysis]
    | _ \<Rightarrow> False) \<and>
   CampaignsResponse.success (example_get_campaigns_unusable ''act_1'') \<and>
   analyze_account_campaigns ANALYSIS_THRESHOLDS example_lib example_get_campaigns_unusable
       example_get_insights ''act_1'' ''last_30d'' =
     NoData ''No campaign data available for analysis'' 0 0 0 ''No Data''"
proof -
  note t = campaign_failures_are_skipped
    [where th = ANALYSIS_THRESHOLDS and lib = example_lib and gi = example_get_insights
       and tr = "''last_30d''" and acct = "''act_1''"]
  have a: "analyze_single_campaign ANALYSIS_THRESHOLDS example_lib example_get_insights
     [''name'' \<mapsto> ''no id''] ''last_30d'' = None"
    using t [where campaign = "[''name'' \<mapsto> ''no id'']"] by simp
  have b: "analyze_single_campaign ANALYSIS_THRESHOLDS example_lib example_get_insights
     [''id'' \<mapsto> ''c2''] ''last_30d'' = None"
    using t [where campaign = "[''id'' \<mapsto> ''c2'']" and cid = "''c2''"]
    by (simp add: example_get_insights_def)
  have c: "analyze_single_campaign ANALYSIS_THRESHOLDS example_lib example_get_insights
     [''id'' \<mapsto> ''c3''] ''last_30d'' = None"
    using t [where campaign = "[''id'' \<mapsto> ''c3'']" and e = ValueError]
    by (simp add: example_try_raises)
  have d: "analyze_account_campaigns ANALYSIS_THRESHOLDS example_lib example_get_campaigns
           example_get_insights ''act_1'' ''last_30d'' =
      Analysed
        \<lparr> total_spend = 200, total_conversions = 4, average_roas = 0,
          account_health =
            determine_account_health ANALYSIS_THRESHOLDS 0 [example_analysis],
          top_performers = select_top_performers [example_analysis],
          underperformers = select_underperformers [example_analysis],
          AccountAnalysis.recommendations =
            generate_account_recommendations ANALYSIS_THRESHOLDS [example_analysis],
          action_items =
            generate_action_items ANALYSIS_THRESHOLDS example_lib [example_analysis] \<rparr>"
    using t [where gc = example_get_campaigns]
    by (simp add: example_kept) (simp add: example_get_campaigns_def example_analysis_def)
  have e: "analyze_account_campaigns ANALYSIS_THRESHOLDS example_lib
       example_get_campaigns_unusable example_get_insights ''act_1'' ''last_30d'' =
     NoData ''No campaign data available for analysis'' 0 0 0 ''No Data''"
    using t [where gc = example_get_campaigns_unusable]
    by (simp add: example_kept_unusable) (simp add: example_get_campaigns_unusable_def)
  show ?thesis
    unfolding d e
    by (simp add: a b c example_try_raises example_get_campaigns_def
          example_get_campaigns_unusable_def select_top_performers_def
          select_underperformers_def py_sorted_def)
qed

end
